theory Spec2Isabelle
  imports Main "HOL-Library.Word"
begin

section \<open>SCTP addresses (sctpsock.go, sctpsock\_unix.go)\<close>

text \<open>
  A Go byte slice is either \<open>nil\<close> or a sequence of bytes; the two are told apart by
  \<open>== nil\<close> only, \<open>len\<close> is 0 for both. \<open>None\<close> is the nil slice.
\<close>

type_synonym byte = "8 word"

type_synonym IP = "byte list option"

definition len :: "IP \<Rightarrow> nat" where
  "len ip = (case ip of None \<Rightarrow> 0 | Some bs \<Rightarrow> length bs)"

definition bytes :: "IP \<Rightarrow> byte list" where
  "bytes ip = (case ip of None \<Rightarrow> [] | Some bs \<Rightarrow> bs)"

text \<open>\<open>type SCTPAddr struct { IP IP; Port int; Zone string }\<close>; a \<open>*SCTPAddr\<close> is an
  \<open>SCTPAddr option\<close>, \<open>None\<close> the nil pointer.\<close>

record SCTPAddr =
  IP :: IP
  Port :: int
  Zone :: string

definition IPv4len :: nat where "IPv4len = 4"
definition IPv6len :: nat where "IPv6len = 16"

text \<open>The values of package syscall on linux, one of the platforms of the build tag.\<close>

definition AF_INET :: int where "AF_INET = 2"
definition AF_INET6 :: int where "AF_INET6 = 10"
definition SOCK_STREAM :: int where "SOCK_STREAM = 1"
definition IPPROTO_SCTP :: int where "IPPROTO_SCTP = 132"

subsection \<open>Helpers of package net that the address methods call (ip.go)\<close>

definition v4InV6Prefix :: "byte list" where
  "v4InV6Prefix = [0, 0, 0, 0, 0, 0, 0, 0, 0, 0, 0xff, 0xff]"

text \<open>Modelled from the spec: \<open>isZeros\<close> of ip.go is not under src/; it is the loop that
  answers false at the first non-zero byte.\<close>

fun isZeros :: "byte list \<Rightarrow> bool" where
  "isZeros [] = True"
| "isZeros (b # p) = (if b \<noteq> 0 then False else isZeros p)"

text \<open>Modelled from the spec: \<open>IP.To4\<close> of ip.go is not under src/. The spec speaks of
  the detection of the IPv4-mapped form: a 4-byte address is returned as it is, a 16-byte
  address whose first ten bytes are zero and whose next two are \<open>0xff\<close> yields its last
  four bytes, and everything else yields nil.\<close>

definition To4 :: "IP \<Rightarrow> IP" where
  "To4 ip =
     (case ip of
        None \<Rightarrow> None
      | Some bs \<Rightarrow>
          if length bs = IPv4len then Some bs
          else if length bs = IPv6len \<and> isZeros (take 10 bs) \<and> bs ! 10 = 0xff \<and> bs ! 11 = 0xff
          then Some (take 4 (drop 12 bs))
          else None)"

text \<open>Modelled from the spec: \<open>IP.Equal\<close> and \<open>IP.IsUnspecified\<close> of ip.go are not
  under src/. An address is unspecified when it equals \<open>IPv4zero\<close> (0.0.0.0) or
  \<open>IPv6unspecified\<close> (::), where an IPv4 address and its 16-byte form are equal.\<close>

definition IPv4zero :: "byte list" where
  "IPv4zero = v4InV6Prefix @ [0, 0, 0, 0]"

definition IPv6unspecified :: "byte list" where
  "IPv6unspecified = [0, 0, 0, 0, 0, 0, 0, 0, 0, 0, 0, 0, 0, 0, 0, 0]"

definition Equal :: "byte list \<Rightarrow> byte list \<Rightarrow> bool" where
  "Equal ip x =
     (if length ip = length x then ip = x
      else if length ip = IPv4len \<and> length x = IPv6len
      then take 12 x = v4InV6Prefix \<and> ip = drop 12 x
      else if length ip = IPv6len \<and> length x = IPv4len
      then take 12 ip = v4InV6Prefix \<and> drop 12 ip = x
      else False)"

definition IsUnspecified :: "IP \<Rightarrow> bool" where
  "IsUnspecified ip = (Equal (bytes ip) IPv4zero \<or> Equal (bytes ip) IPv6unspecified)"

subsection \<open>The methods of \<open>*SCTPAddr\<close>\<close>

text \<open>
  \<^verbatim>\<open>
  func (a *SCTPAddr) family() int {
      if a == nil || len(a.IP) <= IPv4len { return syscall.AF_INET }
      if a.IP.To4() != nil { return syscall.AF_INET }
      return syscall.AF_INET6
  }
  \<close>
\<close>

definition family :: "SCTPAddr option \<Rightarrow> int" where
  "family a =
     (case a of
        None \<Rightarrow> AF_INET
      | Some x \<Rightarrow>
          if len (IP x) \<le> IPv4len then AF_INET
          else if To4 (IP x) \<noteq> None then AF_INET
          else AF_INET6)"

text \<open>
  \<^verbatim>\<open>
  func (a *SCTPAddr) isWildcard() bool {
      if a == nil || a.IP == nil { return true }
      return a.IP.IsUnspecified()
  }
  \<close>
\<close>

definition isWildcard :: "SCTPAddr option \<Rightarrow> bool" where
  "isWildcard a =
     (case a of
        None \<Rightarrow> True
      | Some x \<Rightarrow> if IP x = None then True else IsUnspecified (IP x))"

text \<open>The IPv4-mapped form in the words of the specification: sixteen bytes, of which
  the first twelve are \<open>00 00 00 00 00 00 00 00 00 00 ff ff\<close>.\<close>

definition isV4Mapped :: "IP \<Rightarrow> bool" where
  "isV4Mapped ip = (len ip = 16 \<and> take 12 (bytes ip) = v4InV6Prefix)"

section \<open>Interfaces, errors and the socket primitive provider\<close>

text \<open>
  A value of the interface type \<open>Addr\<close> is the nil interface, or a \<open>*SCTPAddr\<close>
  (which may itself be a nil pointer), or an address of another type.
\<close>

datatype Addr = AddrNil | AddrSCTP "SCTPAddr option" | AddrOther string

text \<open>
  \<^verbatim>\<open>
  func (a *SCTPAddr) opAddr() Addr {
      if a == nil { return nil }
      return a
  }
  \<close>
\<close>

definition opAddr :: "SCTPAddr option \<Rightarrow> Addr" where
  "opAddr a = (case a of None \<Rightarrow> AddrNil | Some x \<Rightarrow> AddrSCTP (Some x))"

text \<open>The error values that the code builds or compares with. \<open>Errno\<close> is what a system
  call fails with, \<open>ErrOther\<close> any other error of a collaborator.\<close>

datatype error =
    EINVAL
  | EOF
  | Errno nat
  | ErrOther string
  | UnknownNetworkError string
  | errMissingAddress
  | SyscallError string error
  | OpError string string Addr Addr error

text \<open>\<open>netFD\<close>, the handle that the provider returns: the code reads its descriptor,
  its network name and its two recorded addresses.\<close>

record netFD =
  sysfd :: int
  net :: string
  laddr :: Addr
  raddr :: Addr

text \<open>\<open>type conn struct { fd *netFD }\<close>, \<open>type SCTPConn struct { conn }\<close> and
  \<open>type SCTPListener struct { fd *netFD }\<close>.\<close>

record conn =
  fd :: "netFD option"

record SCTPConn =
  conn :: conn

record SCTPListener =
  lfd :: "netFD option"

text \<open>
  Every request that reaches a collaborator outside these files is recorded, in order, in
  the world: the socket primitive provider (opening, accepting, closing, duplicating,
  options, deadlines, copying), the reference count of a handle, the name resolver and the
  test hook of dialling. Readers, files, durations and instants are numbers.
\<close>

datatype call =
    CallInternetSocket string "SCTPAddr option" "SCTPAddr option" int int string
  | CallTestHookDialSCTP string "SCTPAddr option" "SCTPAddr option"
  | CallPfdSetsockoptInt netFD int int int
  | CallSyscallSetsockoptInt int int int int
  | CallIncref netFD
  | CallDecref netFD
  | CallCloseRead netFD
  | CallCloseWrite netFD
  | CallSetLinger netFD int
  | CallSetKeepAlive netFD bool
  | CallSetKeepAlivePeriod netFD int
  | CallClose netFD
  | CallAccept netFD
  | CallDup netFD
  | CallSetDeadline netFD int
  | CallSendFile netFD nat
  | CallGenericReadFrom netFD nat
  | CallInternetAddrList string string

type_synonym world = "call list"

text \<open>
  What the collaborators answer is a parameter of every operation: one function per
  primitive. The two spellings of the option name, \<open>SCTP_NODELAY\<close> of package net and
  \<open>syscall.SCTP_NODELAY\<close>, are declared outside these files and are parameters too.
\<close>

record env =
  testHookDialSCTP ::
    "(string \<Rightarrow> SCTPAddr option \<Rightarrow> SCTPAddr option \<Rightarrow> SCTPConn option \<times> error option) option"
  internetSocket_r ::
    "string \<Rightarrow> SCTPAddr option \<Rightarrow> SCTPAddr option \<Rightarrow> int \<Rightarrow> int \<Rightarrow> string \<Rightarrow> error + netFD"
  pfd_SetsockoptInt_r :: "netFD \<Rightarrow> int \<Rightarrow> int \<Rightarrow> int \<Rightarrow> error option"
  syscall_SetsockoptInt_r :: "int \<Rightarrow> int \<Rightarrow> int \<Rightarrow> int \<Rightarrow> error option"
  incref_r :: "netFD \<Rightarrow> error option"
  closeRead_r :: "netFD \<Rightarrow> error option"
  closeWrite_r :: "netFD \<Rightarrow> error option"
  setLinger_r :: "netFD \<Rightarrow> int \<Rightarrow> error option"
  setKeepAlive_r :: "netFD \<Rightarrow> bool \<Rightarrow> error option"
  setKeepAlivePeriod_r :: "netFD \<Rightarrow> int \<Rightarrow> error option"
  close_r :: "netFD \<Rightarrow> error option"
  accept_r :: "netFD \<Rightarrow> error + netFD"
  dup_r :: "netFD \<Rightarrow> error + nat"
  setDeadline_r :: "netFD \<Rightarrow> int \<Rightarrow> error option"
  sendFile_r :: "netFD \<Rightarrow> nat \<Rightarrow> int \<times> error option \<times> bool"
  genericReadFrom_r :: "netFD \<Rightarrow> nat \<Rightarrow> int \<times> error option"
  internetAddrList_r :: "string \<Rightarrow> string \<Rightarrow> error + Addr list"
  forResolve_r :: "Addr list \<Rightarrow> string \<Rightarrow> string \<Rightarrow> Addr"
  net_SCTP_NODELAY :: int
  syscall_SCTP_NODELAY :: int

text \<open>A function that can panic returns an outcome.\<close>

datatype 'a outcome = Returns 'a | Panics string

section \<open>Setting the no-delay option: the three variants\<close>

text \<open>Modelled from the spec: \<open>boolint\<close>, \<open>wrapSyscallError\<close> and
  \<open>os.NewSyscallError\<close> are not under src/. \<open>boolint\<close> is 1 for true and 0 for false.
  The other two decorate a provider error with the operation name:
  \<open>wrapSyscallError\<close> decorates the error number of a system call and leaves every other
  value as it is, \<open>os.NewSyscallError\<close> decorates every error and keeps nil.\<close>

definition boolint :: "bool \<Rightarrow> int" where
  "boolint b = (if b then 1 else 0)"

definition wrapSyscallError :: "string \<Rightarrow> error option \<Rightarrow> error option" where
  "wrapSyscallError name err =
     (case err of
        Some (Errno n) \<Rightarrow> Some (SyscallError name (Errno n))
      | _ \<Rightarrow> err)"


text \<open>
  \<open>fd.pfd.SetsockoptInt(level, name, value)\<close> and
  \<open>syscall.SetsockoptInt(fd.sysfd, level, name, value)\<close> are the two ways in which the
  variants reach \<open>setOption\<close> of the socket primitive provider; what each answers is a
  parameter.
\<close>

definition pfd_SetsockoptInt ::
    "env \<Rightarrow> netFD \<Rightarrow> int \<Rightarrow> int \<Rightarrow> int \<Rightarrow> world \<Rightarrow> error option \<times> world" where
  "pfd_SetsockoptInt E f level name v w =
     (pfd_SetsockoptInt_r E f level name v, w @ [CallPfdSetsockoptInt f level name v])"




text \<open>
  sctpsockopt\_unix.go (\<open>runtime.KeepAlive\<close> has no effect on the values):
  \<^verbatim>\<open>
  func setSCTPNoDelay(fd *netFD, noDelay bool) error {
      err := fd.pfd.SetsockoptInt(syscall.IPPROTO_SCTP, syscall.SCTP_NODELAY, boolint(noDelay))
      runtime.KeepAlive(fd)
      return wrapSyscallError("setsockopt", err)
  }
  \<close>
\<close>

definition setSCTPNoDelay :: "env \<Rightarrow> netFD \<Rightarrow> bool \<Rightarrow> world \<Rightarrow> error option \<times> world" where
  "setSCTPNoDelay E f noDelay w =
     (let (err, w1) = pfd_SetsockoptInt E f IPPROTO_SCTP (syscall_SCTP_NODELAY E) (boolint noDelay) w
      in (wrapSyscallError ''setsockopt'' err, w1))"



text \<open>The requests for a socket option among the calls of a world, each as its
  namespace, name and value.\<close>

fun option_request :: "call \<Rightarrow> (int \<times> int \<times> int) list" where
  "option_request (CallPfdSetsockoptInt f level name v) = [(level, name, v)]"
| "option_request (CallSyscallSetsockoptInt s level name v) = [(level, name, v)]"
| "option_request c = []"

definition option_requests :: "world \<Rightarrow> (int \<times> int \<times> int) list" where
  "option_requests w = concat (map option_request w)"

section \<open>Connections (sctpsock.go, sctpsock\_unix.go)\<close>



text \<open>The decoration of an error with the operation, the network and the two recorded
  addresses of the handle: \<open>&OpError{Op: op, Net: c.fd.net, Source: c.fd.laddr,
  Addr: c.fd.raddr, Err: err}\<close>.\<close>

definition connOpError :: "string \<Rightarrow> netFD \<Rightarrow> error \<Rightarrow> error" where
  "connOpError opn f err = OpError opn (net f) (laddr f) (raddr f) err"



text \<open>The shape shared by the other operations of a connection:
  \<^verbatim>\<open>
      if !c.ok() { return syscall.EINVAL }
      if err := prim(c.fd, ...); err != nil {
          return &OpError{Op: op, Net: c.fd.net, Source: c.fd.laddr, Addr: c.fd.raddr, Err: err}
      }
      return nil
  \<close>\<close>

definition decorate :: "string \<Rightarrow> netFD \<Rightarrow> error option \<times> world \<Rightarrow> error option \<times> world" where
  "decorate opn f r =
     (case r of
        (None, w1) \<Rightarrow> (None, w1)
      | (Some e, w1) \<Rightarrow> (Some (connOpError opn f e), w1))"








text \<open>
  The handle is not nil at either call of \<open>newSCTPConn\<close>; the result of
  \<open>setSCTPNoDelay\<close> is dropped.
  \<^verbatim>\<open>
  func newSCTPConn(fd *netFD) *SCTPConn {
      c := &SCTPConn{conn{fd}}
      setSCTPNoDelay(c.fd, true)
      return c
  }
  \<close>
\<close>

definition newSCTPConn :: "env \<Rightarrow> netFD \<Rightarrow> world \<Rightarrow> SCTPConn \<times> world" where
  "newSCTPConn E f w =
     (let c = \<lparr>conn = \<lparr>fd = Some f\<rparr>\<rparr>;
          (err, w1) = setSCTPNoDelay E (the (fd (conn c))) True w
      in (c, w1))"

section \<open>Dialling\<close>

text \<open>
  \<^verbatim>\<open>
  func doDialSCTP(ctx context.Context, net string, laddr, raddr *SCTPAddr) (*SCTPConn, error) {
      fd, err := internetSocket(ctx, net, laddr, raddr, syscall.SOCK_STREAM, syscall.IPPROTO_SCTP, "dial")
      if err != nil { return nil, err }
      return newSCTPConn(fd), nil
  }
  \<close>
\<close>

definition internetSocket ::
    "env \<Rightarrow> string \<Rightarrow> SCTPAddr option \<Rightarrow> SCTPAddr option \<Rightarrow> int \<Rightarrow> int \<Rightarrow> string \<Rightarrow> world
      \<Rightarrow> (error + netFD) \<times> world" where
  "internetSocket E n la ra sotype proto mode w =
     (internetSocket_r E n la ra sotype proto mode, w @ [CallInternetSocket n la ra sotype proto mode])"

definition doDialSCTP ::
    "env \<Rightarrow> string \<Rightarrow> SCTPAddr option \<Rightarrow> SCTPAddr option \<Rightarrow> world
      \<Rightarrow> (SCTPConn option \<times> error option) \<times> world" where
  "doDialSCTP E n la ra w =
     (case internetSocket E n la ra SOCK_STREAM IPPROTO_SCTP ''dial'' w of
        (Inl err, w1) \<Rightarrow> ((None, Some err), w1)
      | (Inr f, w1) \<Rightarrow> (let (c, w2) = newSCTPConn E f w1 in ((Some c, None), w2)))"

text \<open>
  \<^verbatim>\<open>
  func dialSCTP(ctx context.Context, net string, laddr, raddr *SCTPAddr) (*SCTPConn, error) {
      if testHookDialSCTP != nil { return testHookDialSCTP(ctx, net, laddr, raddr) }
      return doDialSCTP(ctx, net, laddr, raddr)
  }
  \<close>
\<close>

definition dialSCTP ::
    "env \<Rightarrow> string \<Rightarrow> SCTPAddr option \<Rightarrow> SCTPAddr option \<Rightarrow> world
      \<Rightarrow> (SCTPConn option \<times> error option) \<times> world" where
  "dialSCTP E n la ra w =
     (case testHookDialSCTP E of
        Some hook \<Rightarrow> (hook n la ra, w @ [CallTestHookDialSCTP n la ra])
      | None \<Rightarrow> doDialSCTP E n la ra w)"

text \<open>
  \<^verbatim>\<open>
  func DialSCTP(net string, laddr, raddr *SCTPAddr) (*SCTPConn, error) {
      switch net {
      case "sctp", "sctp4", "sctp6":
      default:
          return nil, &OpError{Op: "dial", Net: net, Source: laddr.opAddr(), Addr: raddr.opAddr(), Err: UnknownNetworkError(net)}
      }
      if raddr == nil {
          return nil, &OpError{Op: "dial", Net: net, Source: laddr.opAddr(), Addr: nil, Err: errMissingAddress}
      }
      c, err := dialSCTP(context.Background(), net, laddr, raddr)
      if err != nil {
          return nil, &OpError{Op: "dial", Net: net, Source: laddr.opAddr(), Addr: raddr.opAddr(), Err: err}
      }
      return c, nil
  }
  \<close>
\<close>

definition sctpNetwork :: "string \<Rightarrow> bool" where
  "sctpNetwork n = (n = ''sctp'' \<or> n = ''sctp4'' \<or> n = ''sctp6'')"

definition DialSCTP ::
    "env \<Rightarrow> string \<Rightarrow> SCTPAddr option \<Rightarrow> SCTPAddr option \<Rightarrow> world
      \<Rightarrow> (SCTPConn option \<times> error option) \<times> world" where
  "DialSCTP E n la ra w =
     (if \<not> sctpNetwork n
      then ((None, Some (OpError ''dial'' n (opAddr la) (opAddr ra) (UnknownNetworkError n))), w)
      else if ra = None
      then ((None, Some (OpError ''dial'' n (opAddr la) AddrNil errMissingAddress)), w)
      else case dialSCTP E n la ra w of
             ((c, Some err), w1) \<Rightarrow> ((None, Some (OpError ''dial'' n (opAddr la) (opAddr ra) err)), w1)
           | ((c, None), w1) \<Rightarrow> ((c, None), w1))"

section \<open>Listeners\<close>

text \<open>\<open>func (ln *SCTPListener) ok() bool { return ln != nil && ln.fd != nil }\<close>\<close>

definition SCTPListener_ok :: "SCTPListener option \<Rightarrow> bool" where
  "SCTPListener_ok ln = (ln \<noteq> None \<and> lfd (the ln) \<noteq> None)"

definition l_fd :: "SCTPListener option \<Rightarrow> netFD" where
  "l_fd l = the (lfd (the l))"

text \<open>The decoration of a listener's error:
  \<open>&OpError{Op: op, Net: l.fd.net, Source: nil, Addr: l.fd.laddr, Err: err}\<close>.\<close>

definition lnOpError :: "string \<Rightarrow> netFD \<Rightarrow> error \<Rightarrow> error" where
  "lnOpError opn f err = OpError opn (net f) AddrNil (laddr f) err"

text \<open>
  \<^verbatim>\<open>
  func (ln *SCTPListener) accept() (*SCTPConn, error) {
      fd, err := ln.fd.accept()
      if err != nil { return nil, err }
      return newSCTPConn(fd), nil
  }
  \<close>
\<close>

definition SCTPListener_accept ::
    "env \<Rightarrow> netFD \<Rightarrow> world \<Rightarrow> (SCTPConn option \<times> error option) \<times> world" where
  "SCTPListener_accept E lf w =
     (case (accept_r E lf, w @ [CallAccept lf]) of
        (Inl err, w1) \<Rightarrow> ((None, Some err), w1)
      | (Inr f, w1) \<Rightarrow> (let (c, w2) = newSCTPConn E f w1 in ((Some c, None), w2)))"

text \<open>\<open>func (ln *SCTPListener) close() error { return ln.fd.Close() }\<close>\<close>

definition SCTPListener_close :: "env \<Rightarrow> netFD \<Rightarrow> world \<Rightarrow> error option \<times> world" where
  "SCTPListener_close E lf w = (close_r E lf, w @ [CallClose lf])"

text \<open>
  \<^verbatim>\<open>
  func (ln *SCTPListener) file() (*os.File, error) {
      f, err := ln.fd.dup()
      if err != nil { return nil, err }
      return f, nil
  }
  \<close>
\<close>

definition SCTPListener_file ::
    "env \<Rightarrow> netFD \<Rightarrow> world \<Rightarrow> (nat option \<times> error option) \<times> world" where
  "SCTPListener_file E lf w =
     (case (dup_r E lf, w @ [CallDup lf]) of
        (Inl err, w1) \<Rightarrow> ((None, Some err), w1)
      | (Inr f, w1) \<Rightarrow> ((Some f, None), w1))"

text \<open>
  \<open>AcceptSCTP\<close> and \<open>Accept\<close> have the same body; \<open>Accept\<close> returns the connection as
  a \<open>Conn\<close>.
  \<^verbatim>\<open>
  func (l *SCTPListener) AcceptSCTP() (*SCTPConn, error) {
      if !l.ok() { return nil, syscall.EINVAL }
      c, err := l.accept()
      if err != nil {
          return nil, &OpError{Op: "accept", Net: l.fd.net, Source: nil, Addr: l.fd.laddr, Err: err}
      }
      return c, nil
  }
  \<close>
\<close>

definition SCTPListener_AcceptSCTP ::
    "env \<Rightarrow> SCTPListener option \<Rightarrow> world \<Rightarrow> (SCTPConn option \<times> error option) \<times> world" where
  "SCTPListener_AcceptSCTP E l w =
     (if \<not> SCTPListener_ok l then ((None, Some EINVAL), w)
      else case SCTPListener_accept E (l_fd l) w of
             ((c, Some err), w1) \<Rightarrow> ((None, Some (lnOpError ''accept'' (l_fd l) err)), w1)
           | ((c, None), w1) \<Rightarrow> ((c, None), w1))"

definition SCTPListener_Accept ::
    "env \<Rightarrow> SCTPListener option \<Rightarrow> world \<Rightarrow> (SCTPConn option \<times> error option) \<times> world" where
  "SCTPListener_Accept E l w =
     (if \<not> SCTPListener_ok l then ((None, Some EINVAL), w)
      else case SCTPListener_accept E (l_fd l) w of
             ((c, Some err), w1) \<Rightarrow> ((None, Some (lnOpError ''accept'' (l_fd l) err)), w1)
           | ((c, None), w1) \<Rightarrow> ((c, None), w1))"

text \<open>
  \<^verbatim>\<open>
  func (l *SCTPListener) Close() error {
      if !l.ok() { return syscall.EINVAL }
      if err := l.close(); err != nil {
          return &OpError{Op: "close", Net: l.fd.net, Source: nil, Addr: l.fd.laddr, Err: err}
      }
      return nil
  }
  \<close>
\<close>

definition SCTPListener_Close :: "env \<Rightarrow> SCTPListener option \<Rightarrow> world \<Rightarrow> error option \<times> world" where
  "SCTPListener_Close E l w =
     (if \<not> SCTPListener_ok l then (Some EINVAL, w)
      else case SCTPListener_close E (l_fd l) w of
             (Some err, w1) \<Rightarrow> (Some (lnOpError ''close'' (l_fd l) err), w1)
           | (None, w1) \<Rightarrow> (None, w1))"

text \<open>
  \<open>func (l *SCTPListener) Addr() Addr { return l.fd.laddr }\<close>: no check of the liveness
  flag and no error among the results; reading \<open>l.fd\<close> of a nil listener, or
  \<open>laddr\<close> of a nil handle, is a nil pointer dereference, which panics.
\<close>

definition SCTPListener_Addr :: "SCTPListener option \<Rightarrow> Addr outcome" where
  "SCTPListener_Addr l =
     (case l of
        None \<Rightarrow> Panics ''invalid memory address or nil pointer dereference''
      | Some ln \<Rightarrow>
          (case lfd ln of
             None \<Rightarrow> Panics ''invalid memory address or nil pointer dereference''
           | Some f \<Rightarrow> Returns (laddr f)))"

text \<open>
  \<^verbatim>\<open>
  func (l *SCTPListener) SetDeadline(t time.Time) error {
      if !l.ok() { return syscall.EINVAL }
      if err := l.fd.pfd.SetDeadline(t); err != nil {
          return &OpError{Op: "set", Net: l.fd.net, Source: nil, Addr: l.fd.laddr, Err: err}
      }
      return nil
  }
  \<close>
\<close>

definition SCTPListener_SetDeadline ::
    "env \<Rightarrow> SCTPListener option \<Rightarrow> int \<Rightarrow> world \<Rightarrow> error option \<times> world" where
  "SCTPListener_SetDeadline E l t w =
     (if \<not> SCTPListener_ok l then (Some EINVAL, w)
      else case (setDeadline_r E (l_fd l) t, w @ [CallSetDeadline (l_fd l) t]) of
             (Some err, w1) \<Rightarrow> (Some (lnOpError ''set'' (l_fd l) err), w1)
           | (None, w1) \<Rightarrow> (None, w1))"

text \<open>
  \<^verbatim>\<open>
  func (l *SCTPListener) File() (f *os.File, err error) {
      if !l.ok() { return nil, syscall.EINVAL }
      f, err = l.file()
      if err != nil {
          return nil, &OpError{Op: "file", Net: l.fd.net, Source: nil, Addr: l.fd.laddr, Err: err}
      }
      return
  }
  \<close>
\<close>

definition SCTPListener_File ::
    "env \<Rightarrow> SCTPListener option \<Rightarrow> world \<Rightarrow> (nat option \<times> error option) \<times> world" where
  "SCTPListener_File E l w =
     (if \<not> SCTPListener_ok l then ((None, Some EINVAL), w)
      else case SCTPListener_file E (l_fd l) w of
             ((f, Some err), w1) \<Rightarrow> ((None, Some (lnOpError ''file'' (l_fd l) err)), w1)
           | ((f, None), w1) \<Rightarrow> ((f, None), w1))"

text \<open>
  \<^verbatim>\<open>
  func listenSCTP(ctx context.Context, network string, laddr *SCTPAddr) (*SCTPListener, error) {
      fd, err := internetSocket(ctx, network, laddr, nil, syscall.SOCK_STREAM, syscall.IPPROTO_SCTP, "listen")
      if err != nil { return nil, err }
      return &SCTPListener{fd}, nil
  }
  \<close>
\<close>

definition listenSCTP ::
    "env \<Rightarrow> string \<Rightarrow> SCTPAddr option \<Rightarrow> world \<Rightarrow> (SCTPListener option \<times> error option) \<times> world" where
  "listenSCTP E network la w =
     (case internetSocket E network la None SOCK_STREAM IPPROTO_SCTP ''listen'' w of
        (Inl err, w1) \<Rightarrow> ((None, Some err), w1)
      | (Inr f, w1) \<Rightarrow> ((Some \<lparr>lfd = Some f\<rparr>, None), w1))"

text \<open>
  \<open>&SCTPAddr{}\<close> is the address with a nil IP, port 0 and no zone.
  \<^verbatim>\<open>
  func ListenSCTP(net string, laddr *SCTPAddr) (*SCTPListener, error) {
      switch net {
      case "sctp", "sctp4", "sctp6":
      default:
          return nil, &OpError{Op: "listen", Net: net, Source: nil, Addr: laddr.opAddr(), Err: UnknownNetworkError(net)}
      }
      if laddr == nil { laddr = &SCTPAddr{} }
      ln, err := listenSCTP(context.Background(), net, laddr)
      if err != nil {
          return nil, &OpError{Op: "listen", Net: net, Source: nil, Addr: laddr.opAddr(), Err: err}
      }
      return ln, nil
  }
  \<close>
\<close>

definition emptySCTPAddr :: SCTPAddr where
  "emptySCTPAddr = \<lparr>IP = None, Port = 0, Zone = ''''\<rparr>"

definition ListenSCTP ::
    "env \<Rightarrow> string \<Rightarrow> SCTPAddr option \<Rightarrow> world \<Rightarrow> (SCTPListener option \<times> error option) \<times> world" where
  "ListenSCTP E n la w =
     (if \<not> sctpNetwork n
      then ((None, Some (OpError ''listen'' n AddrNil (opAddr la) (UnknownNetworkError n))), w)
      else let la1 = (if la = None then Some emptySCTPAddr else la)
           in case listenSCTP E n la1 w of
                ((ln, Some err), w1) \<Rightarrow> ((None, Some (OpError ''listen'' n AddrNil (opAddr la1) err)), w1)
              | ((ln, None), w1) \<Rightarrow> ((ln, None), w1))"

section \<open>Resolving\<close>

text \<open>
  The resolver (\<open>DefaultResolver.internetAddrList\<close>) and \<open>addrList.forResolve\<close> are
  collaborators; the type assertion \<open>.(*SCTPAddr)\<close> panics on an address of another type.
  \<^verbatim>\<open>
  func ResolveSCTPAddr(network, address string) (*SCTPAddr, error) {
      switch network {
      case "sctp", "sctp4", "sctp6":
      case "": // a hint wildcard for Go 1.0 undocumented behavior
          network = "sctp"
      default:
          return nil, UnknownNetworkError(network)
      }
      addrs, err := DefaultResolver.internetAddrList(context.Background(), network, address)
      if err != nil { return nil, err }
      return addrs.forResolve(network, address).(*SCTPAddr), nil
  }
  \<close>
\<close>

definition internetAddrList :: "env \<Rightarrow> string \<Rightarrow> string \<Rightarrow> world \<Rightarrow> (error + Addr list) \<times> world" where
  "internetAddrList E network address w =
     (internetAddrList_r E network address, w @ [CallInternetAddrList network address])"

definition resolveOn ::
    "env \<Rightarrow> string \<Rightarrow> string \<Rightarrow> world \<Rightarrow> (SCTPAddr option \<times> error option) outcome \<times> world" where
  "resolveOn E network address w =
     (case internetAddrList E network address w of
        (Inl err, w1) \<Rightarrow> (Returns (None, Some err), w1)
      | (Inr addrs, w1) \<Rightarrow>
          (case forResolve_r E addrs network address of
             AddrSCTP a \<Rightarrow> (Returns (a, None), w1)
           | _ \<Rightarrow> (Panics ''interface conversion: Addr is not *SCTPAddr'', w1)))"

definition ResolveSCTPAddr ::
    "env \<Rightarrow> string \<Rightarrow> string \<Rightarrow> world \<Rightarrow> (SCTPAddr option \<times> error option) outcome \<times> world" where
  "ResolveSCTPAddr E network address w =
     (if network = ''sctp'' \<or> network = ''sctp4'' \<or> network = ''sctp6''
      then resolveOn E network address w
      else if network = ''''
      then resolveOn E ''sctp'' address w
      else (Returns (None, Some (UnknownNetworkError network)), w))"

section \<open>Concrete handles and providers\<close>

text \<open>Addresses, handles and two providers on which the theorems below are run: one
  whose every primitive succeeds, and one whose every primitive fails.\<close>

definition loopback4 :: SCTPAddr where
  "loopback4 = \<lparr>IP = Some [127, 0, 0, 1], Port = 5000, Zone = ''''\<rparr>"

definition loopbackMapped :: SCTPAddr where
  "loopbackMapped = \<lparr>IP = Some [0, 0, 0, 0, 0, 0, 0, 0, 0, 0, 0xff, 0xff, 127, 0, 0, 1], Port = 5000, Zone = ''''\<rparr>"

definition loopback6 :: SCTPAddr where
  "loopback6 = \<lparr>IP = Some [0, 0, 0, 0, 0, 0, 0, 0, 0, 0, 0, 0, 0, 0, 0, 1], Port = 5000, Zone = ''''\<rparr>"

definition fdA :: netFD where
  "fdA = \<lparr>sysfd = 3, net = ''sctp'', laddr = AddrSCTP (Some loopback4), raddr = AddrNil\<rparr>"

definition fdB :: netFD where
  "fdB = \<lparr>sysfd = 4, net = ''sctp'', laddr = AddrSCTP (Some loopback4),
          raddr = AddrSCTP (Some (loopback4\<lparr>Port := 6000\<rparr>))\<rparr>"

definition envOK :: env where
  "envOK =
     \<lparr>testHookDialSCTP = None,
      internetSocket_r = (\<lambda>n la ra sotype proto mode. Inr (if mode = ''listen'' then fdA else fdB)),
      pfd_SetsockoptInt_r = (\<lambda>f level name v. None),
      syscall_SetsockoptInt_r = (\<lambda>s level name v. None),
      incref_r = (\<lambda>f. None),
      closeRead_r = (\<lambda>f. None),
      closeWrite_r = (\<lambda>f. None),
      setLinger_r = (\<lambda>f sec. None),
      setKeepAlive_r = (\<lambda>f b. None),
      setKeepAlivePeriod_r = (\<lambda>f d. None),
      close_r = (\<lambda>f. None),
      accept_r = (\<lambda>f. Inr fdB),
      dup_r = (\<lambda>f. Inr 7),
      setDeadline_r = (\<lambda>f t. None),
      sendFile_r = (\<lambda>f r. (0, None, False)),
      genericReadFrom_r = (\<lambda>f r. (42, None)),
      internetAddrList_r = (\<lambda>network address. Inr [AddrSCTP (Some loopback4)]),
      forResolve_r = (\<lambda>addrs network address. case addrs of [] \<Rightarrow> AddrNil | a # as \<Rightarrow> a),
      net_SCTP_NODELAY = 3,
      syscall_SCTP_NODELAY = 3\<rparr>"


text \<open>A provider that opens and accepts handles, on which setting an option fails.\<close>

definition envNoOption :: env where
  "envNoOption = envOK\<lparr>pfd_SetsockoptInt_r := (\<lambda>f level name v. Some (Errno 22)),
                       syscall_SetsockoptInt_r := (\<lambda>s level name v. Some (Errno 22))\<rparr>"


section \<open>Properties of the addresses\<close>

lemma isZeros_replicate: "isZeros p = (p = replicate (length p) 0)"
  by (induction p) auto

lemma take12_split:
  assumes "length bs = 16"
  shows "take 12 bs = take 10 bs @ [bs ! 10, bs ! 11]"
proof -
  have a: "take (Suc 11) bs = take 11 bs @ [bs ! 11]"
    using assms by (intro take_Suc_conv_app_nth) simp
  have b: "take (Suc 10) bs = take 10 bs @ [bs ! 10]"
    using assms by (intro take_Suc_conv_app_nth) simp
  have "Suc 11 = 12" and "Suc 10 = 11" by simp_all
  with a b show ?thesis by simp
qed

lemma mapped_prefix:
  assumes "length bs = 16"
  shows "(isZeros (take 10 bs) \<and> bs ! 10 = 0xff \<and> bs ! 11 = 0xff) = (take 12 bs = v4InV6Prefix)"
proof -
  have l: "length (take 10 bs) = 10" using assms by simp
  have r: "replicate 10 (0::byte) = [0, 0, 0, 0, 0, 0, 0, 0, 0, 0]" by (simp add: eval_nat_numeral)
  have "isZeros (take 10 bs) = (take 10 bs = [0, 0, 0, 0, 0, 0, 0, 0, 0, 0])"
    using isZeros_replicate [of "take 10 bs"] l r by simp
  then show ?thesis
    using l by (auto simp add: take12_split [OF assms] v4InV6Prefix_def)
qed

lemma To4_mapped:
  assumes "4 < len ip"
  shows "(To4 ip \<noteq> None) = isV4Mapped ip"
proof (cases ip)
  case None
  with assms show ?thesis by (simp add: len_def)
next
  case (Some bs)
  show ?thesis
  proof (cases "length bs = 16")
    case True
    from mapped_prefix [OF True] Some True show ?thesis
      by (simp add: To4_def isV4Mapped_def len_def bytes_def IPv4len_def IPv6len_def)
  next
    case False
    with Some assms show ?thesis
      by (simp add: To4_def isV4Mapped_def len_def bytes_def IPv4len_def IPv6len_def)
  qed
qed

lemma Equal_IPv4zero: "Equal bs IPv4zero = (bs = [0, 0, 0, 0] \<or> bs = IPv4zero)"
  by (auto simp add: Equal_def IPv4zero_def v4InV6Prefix_def IPv4len_def IPv6len_def)

lemma Equal_IPv6unspecified: "Equal bs IPv6unspecified = (bs = IPv6unspecified)"
  by (auto simp add: Equal_def IPv6unspecified_def v4InV6Prefix_def IPv4len_def IPv6len_def)

text \<open>
  Claim C2. The family of an address is the IPv4 family when the address is nil, when its
  IP has at most four bytes, or when its IP is an IPv4-mapped IPv6 address; in every other
  case it is the IPv6 family, which is a different number. The family of 127.0.0.1 (as four
  bytes) and of ::ffff:127.0.0.1 is IPv4, the family of ::1 is IPv6.
\<close>

theorem family_classification:
  "family None = AF_INET
   \<and> family (Some x) = (if len (IP x) \<le> 4 \<or> isV4Mapped (IP x) then AF_INET else AF_INET6)
   \<and> AF_INET \<noteq> AF_INET6
   \<and> family (Some loopback4) = AF_INET
   \<and> family (Some loopbackMapped) = AF_INET
   \<and> family (Some loopback6) = AF_INET6"
proof -
  have general: "family (Some y) = (if len (IP y) \<le> 4 \<or> isV4Mapped (IP y) then AF_INET else AF_INET6)"
    for y
    using To4_mapped [of "IP y"] by (auto simp add: family_def IPv4len_def)
  have nil: "family None = AF_INET"
    by (simp add: family_def)
  have differ: "AF_INET \<noteq> AF_INET6"
    by (simp add: AF_INET_def AF_INET6_def)
  have four: "family (Some loopback4) = AF_INET"
    by (simp add: general loopback4_def len_def)
  have mapped: "family (Some loopbackMapped) = AF_INET"
    by (simp add: general loopbackMapped_def len_def isV4Mapped_def bytes_def v4InV6Prefix_def)
  have six: "family (Some loopback6) = AF_INET6"
    by (simp add: general loopback6_def len_def isV4Mapped_def bytes_def v4InV6Prefix_def)
  from nil general differ four mapped six show ?thesis by blast
qed

theorem family_classification_witness:
  "family (Some \<lparr>IP = Some [0, 0, 0, 0, 0, 0, 0, 0, 0, 0, 0xff, 0xff, 10, 0, 0, 1], Port = 80, Zone = ''''\<rparr>) = 2
   \<and> family (Some \<lparr>IP = Some [0x20, 1, 0xd, 0xb8, 0, 0, 0, 0, 0, 0, 0, 0, 0, 0, 0, 1], Port = 80, Zone = ''''\<rparr>) = 10"
  using family_classification
          [of "\<lparr>IP = Some [0, 0, 0, 0, 0, 0, 0, 0, 0, 0, 0xff, 0xff, 10, 0, 0, 1], Port = 80, Zone = ''''\<rparr>"]
        family_classification
          [of "\<lparr>IP = Some [0x20, 1, 0xd, 0xb8, 0, 0, 0, 0, 0, 0, 0, 0, 0, 0, 0, 1], Port = 80, Zone = ''''\<rparr>"]
  by (simp add: len_def isV4Mapped_def bytes_def v4InV6Prefix_def AF_INET_def AF_INET6_def)

text \<open>
  Claim C7, as the claim states it, fails on an address whose IP is empty but not nil:
  the test of the code is \<open>a.IP == nil\<close>, the empty IP goes on to \<open>IsUnspecified\<close>, and an
  IP of length zero is not an unspecified address.
\<close>

theorem isWildcard_empty_IP_counterexample:
  "len (IP \<lparr>IP = Some [], Port = 0, Zone = ''''\<rparr>) = 0
   \<and> isWildcard (Some \<lparr>IP = Some [], Port = 0, Zone = ''''\<rparr>) = False"
  by (simp add: len_def isWildcard_def IsUnspecified_def Equal_def bytes_def IPv4zero_def
      IPv6unspecified_def v4InV6Prefix_def IPv4len_def IPv6len_def)

text \<open>
  Claim C7, amended. An address is a wildcard exactly when it is nil, or its IP is nil, or
  its IP is the unspecified address of its family: 0.0.0.0 as four bytes or in its 16-byte
  form for IPv4, :: for IPv6.
\<close>

theorem isWildcard_characterisation:
  "isWildcard a =
     (case a of
        None \<Rightarrow> True
      | Some x \<Rightarrow>
          (case IP x of
             None \<Rightarrow> True
           | Some bs \<Rightarrow> bs = [0, 0, 0, 0] \<or> bs = IPv4zero \<or> bs = IPv6unspecified))"
  by (simp add: isWildcard_def IsUnspecified_def bytes_def Equal_IPv4zero Equal_IPv6unspecified
      split: option.splits)

theorem isWildcard_characterisation_witness:
  "isWildcard (Some emptySCTPAddr)
   \<and> isWildcard (Some \<lparr>IP = Some [0, 0, 0, 0], Port = 0, Zone = ''''\<rparr>)
   \<and> \<not> isWildcard (Some loopback4)"
  using isWildcard_characterisation [of "Some emptySCTPAddr"]
        isWildcard_characterisation [of "Some \<lparr>IP = Some [0, 0, 0, 0], Port = 0, Zone = ''''\<rparr>"]
        isWildcard_characterisation [of "Some loopback4"]
  by (simp add: emptySCTPAddr_def loopback4_def IPv4zero_def IPv6unspecified_def v4InV6Prefix_def)

section \<open>Properties of dialling and of connections\<close>

lemma decorate_None [simp]: "decorate opn f (None, w) = (None, w)"
  by (simp add: decorate_def)

lemma decorate_Some [simp]: "decorate opn f (Some e, w) = (Some (connOpError opn f e), w)"
  by (simp add: decorate_def)

lemma setSCTPNoDelay_eq:
  "setSCTPNoDelay E f b w =
     (wrapSyscallError ''setsockopt'' (pfd_SetsockoptInt_r E f IPPROTO_SCTP (syscall_SCTP_NODELAY E) (boolint b)),
      w @ [CallPfdSetsockoptInt f IPPROTO_SCTP (syscall_SCTP_NODELAY E) (boolint b)])"
  by (simp add: setSCTPNoDelay_def pfd_SetsockoptInt_def)

lemma newSCTPConn_eq:
  "newSCTPConn E f w =
     (\<lparr>conn = \<lparr>fd = Some f\<rparr>\<rparr>, w @ [CallPfdSetsockoptInt f IPPROTO_SCTP (syscall_SCTP_NODELAY E) 1])"
  by (simp add: newSCTPConn_def setSCTPNoDelay_eq boolint_def)

text \<open>
  Claim C1, as the claim states it, fails for a network that is not an SCTP network: the
  network is checked before the remote address, and the error is the unknown-network error.
\<close>

theorem DialSCTP_nil_raddr_counterexample:
  "DialSCTP envOK ''tcp'' None None [] =
     ((None, Some (OpError ''dial'' ''tcp'' AddrNil AddrNil (UnknownNetworkError ''tcp''))), [])
   \<and> UnknownNetworkError ''tcp'' \<noteq> errMissingAddress"
  by (simp add: DialSCTP_def sctpNetwork_def opAddr_def)

text \<open>
  Claim C1, amended. Every call of DialSCTP with a nil remote address fails and leaves the
  world as it was (no socket is opened, neither \<open>internetSocket\<close> nor the test hook is
  reached); the error is the missing-address error when the network is "sctp", "sctp4" or
  "sctp6", and the unknown-network error for every other network.
\<close>

theorem DialSCTP_nil_raddr:
  "DialSCTP E n la None w =
     ((None,
       Some (OpError ''dial'' n (opAddr la) AddrNil
               (if n = ''sctp'' \<or> n = ''sctp4'' \<or> n = ''sctp6'' then errMissingAddress
                else UnknownNetworkError n))),
      w)"
  by (simp add: DialSCTP_def sctpNetwork_def opAddr_def)

theorem DialSCTP_nil_raddr_witness:
  "DialSCTP envOK ''sctp6'' (Some loopback6) None [CallAccept fdA] =
     ((None, Some (OpError ''dial'' ''sctp6'' (AddrSCTP (Some loopback6)) AddrNil errMissingAddress)),
      [CallAccept fdA])"
  using DialSCTP_nil_raddr [of envOK "''sctp6''" "Some loopback6" "[CallAccept fdA]"]
  by (simp add: opAddr_def)



text \<open>
  Claim C5. A connection is built with the handle it is given and with exactly one request
  to the provider, the no-delay option (IPPROTO\_SCTP, SCTP\_NODELAY, 1), whatever the
  provider answers to it. A dial whose socket opens, and an accept that yields a handle,
  return that connection without error, the option request being the one call after the
  opening or the accepting; so do DialSCTP (without a test hook) and AcceptSCTP.
\<close>

theorem newSCTPConn_applies_nodelay_once:
  "newSCTPConn E f w =
     (\<lparr>conn = \<lparr>fd = Some f\<rparr>\<rparr>, w @ [CallPfdSetsockoptInt f IPPROTO_SCTP (syscall_SCTP_NODELAY E) 1])
   \<and> snd (newSCTPConn E f w) = snd (setSCTPNoDelay E f True w)
   \<and> option_requests (snd (newSCTPConn E f [])) = [(IPPROTO_SCTP, syscall_SCTP_NODELAY E, 1)]
   \<and> (internetSocket_r E n la ra SOCK_STREAM IPPROTO_SCTP ''dial'' = Inr f \<longrightarrow>
        doDialSCTP E n la ra w =
          ((Some \<lparr>conn = \<lparr>fd = Some f\<rparr>\<rparr>, None),
           w @ [CallInternetSocket n la ra SOCK_STREAM IPPROTO_SCTP ''dial'',
                CallPfdSetsockoptInt f IPPROTO_SCTP (syscall_SCTP_NODELAY E) 1]))
   \<and> (accept_r E lf = Inr f \<longrightarrow>
        SCTPListener_accept E lf w =
          ((Some \<lparr>conn = \<lparr>fd = Some f\<rparr>\<rparr>, None),
           w @ [CallAccept lf, CallPfdSetsockoptInt f IPPROTO_SCTP (syscall_SCTP_NODELAY E) 1]))
   \<and> (sctpNetwork n \<and> testHookDialSCTP E = None
        \<and> internetSocket_r E n la (Some r) SOCK_STREAM IPPROTO_SCTP ''dial'' = Inr f \<longrightarrow>
        DialSCTP E n la (Some r) w =
          ((Some \<lparr>conn = \<lparr>fd = Some f\<rparr>\<rparr>, None),
           w @ [CallInternetSocket n la (Some r) SOCK_STREAM IPPROTO_SCTP ''dial'',
                CallPfdSetsockoptInt f IPPROTO_SCTP (syscall_SCTP_NODELAY E) 1]))
   \<and> (accept_r E lf = Inr f \<longrightarrow>
        SCTPListener_AcceptSCTP E (Some \<lparr>lfd = Some lf\<rparr>) w =
          ((Some \<lparr>conn = \<lparr>fd = Some f\<rparr>\<rparr>, None),
           w @ [CallAccept lf, CallPfdSetsockoptInt f IPPROTO_SCTP (syscall_SCTP_NODELAY E) 1]))"
proof -
  have built: "newSCTPConn E f w =
     (\<lparr>conn = \<lparr>fd = Some f\<rparr>\<rparr>, w @ [CallPfdSetsockoptInt f IPPROTO_SCTP (syscall_SCTP_NODELAY E) 1])"
    by (rule newSCTPConn_eq)
  have once: "snd (newSCTPConn E f w) = snd (setSCTPNoDelay E f True w)"
    by (simp add: newSCTPConn_eq setSCTPNoDelay_eq boolint_def)
  have request: "option_requests (snd (newSCTPConn E f [])) = [(IPPROTO_SCTP, syscall_SCTP_NODELAY E, 1)]"
    by (simp add: newSCTPConn_eq option_requests_def)
  have dial: "doDialSCTP E n la ra w =
          ((Some \<lparr>conn = \<lparr>fd = Some f\<rparr>\<rparr>, None),
           w @ [CallInternetSocket n la ra SOCK_STREAM IPPROTO_SCTP ''dial'',
                CallPfdSetsockoptInt f IPPROTO_SCTP (syscall_SCTP_NODELAY E) 1])"
    if "internetSocket_r E n la ra SOCK_STREAM IPPROTO_SCTP ''dial'' = Inr f" for ra
    using that by (simp add: doDialSCTP_def internetSocket_def newSCTPConn_eq)
  have acc: "SCTPListener_accept E lf w =
          ((Some \<lparr>conn = \<lparr>fd = Some f\<rparr>\<rparr>, None),
           w @ [CallAccept lf, CallPfdSetsockoptInt f IPPROTO_SCTP (syscall_SCTP_NODELAY E) 1])"
    if "accept_r E lf = Inr f"
    using that by (simp add: SCTPListener_accept_def newSCTPConn_eq)
  have Dial: "DialSCTP E n la (Some r) w =
          ((Some \<lparr>conn = \<lparr>fd = Some f\<rparr>\<rparr>, None),
           w @ [CallInternetSocket n la (Some r) SOCK_STREAM IPPROTO_SCTP ''dial'',
                CallPfdSetsockoptInt f IPPROTO_SCTP (syscall_SCTP_NODELAY E) 1])"
    if "sctpNetwork n" and "testHookDialSCTP E = None"
      and "internetSocket_r E n la (Some r) SOCK_STREAM IPPROTO_SCTP ''dial'' = Inr f"
    using that by (simp add: DialSCTP_def dialSCTP_def dial)
  have Acc: "SCTPListener_AcceptSCTP E (Some \<lparr>lfd = Some lf\<rparr>) w =
          ((Some \<lparr>conn = \<lparr>fd = Some f\<rparr>\<rparr>, None),
           w @ [CallAccept lf, CallPfdSetsockoptInt f IPPROTO_SCTP (syscall_SCTP_NODELAY E) 1])"
    if "accept_r E lf = Inr f"
    using that by (simp add: SCTPListener_AcceptSCTP_def SCTPListener_ok_def l_fd_def acc)
  from built once request dial acc Dial Acc show ?thesis by blast
qed

theorem newSCTPConn_applies_nodelay_once_witness:
  "fst (setSCTPNoDelay envNoOption fdB True []) = Some (SyscallError ''setsockopt'' (Errno 22))
   \<and> doDialSCTP envNoOption ''sctp'' None (Some loopback4) [] =
       ((Some \<lparr>conn = \<lparr>fd = Some fdB\<rparr>\<rparr>, None),
        [CallInternetSocket ''sctp'' None (Some loopback4) 1 132 ''dial'',
         CallPfdSetsockoptInt fdB 132 3 1])
   \<and> SCTPListener_accept envNoOption fdA [] =
       ((Some \<lparr>conn = \<lparr>fd = Some fdB\<rparr>\<rparr>, None),
        [CallAccept fdA, CallPfdSetsockoptInt fdB 132 3 1])
   \<and> DialSCTP envNoOption ''sctp'' None (Some loopback4) [] =
       ((Some \<lparr>conn = \<lparr>fd = Some fdB\<rparr>\<rparr>, None),
        [CallInternetSocket ''sctp'' None (Some loopback4) 1 132 ''dial'',
         CallPfdSetsockoptInt fdB 132 3 1])
   \<and> SCTPListener_AcceptSCTP envNoOption (Some \<lparr>lfd = Some fdA\<rparr>) [] =
       ((Some \<lparr>conn = \<lparr>fd = Some fdB\<rparr>\<rparr>, None),
        [CallAccept fdA, CallPfdSetsockoptInt fdB 132 3 1])"
proof -
  have n: "sctpNetwork ''sctp''"
    by (simp add: sctpNetwork_def)
  have h: "testHookDialSCTP envNoOption = None"
    by (simp add: envNoOption_def envOK_def)
  have s: "fst (setSCTPNoDelay envNoOption fdB True []) = Some (SyscallError ''setsockopt'' (Errno 22))"
    by (simp add: setSCTPNoDelay_eq envNoOption_def envOK_def wrapSyscallError_def)
  have d: "internetSocket_r envNoOption ''sctp'' None (Some loopback4) SOCK_STREAM IPPROTO_SCTP ''dial'' = Inr fdB"
    by (simp add: envNoOption_def envOK_def)
  have a: "accept_r envNoOption fdA = Inr fdB"
    by (simp add: envNoOption_def envOK_def)
  from s d a n h
    newSCTPConn_applies_nodelay_once
      [where E = envNoOption and f = fdB and w = "[]" and n = "''sctp''" and la = None
         and ra = "Some loopback4" and r = loopback4 and lf = fdA]
  show ?thesis
    by (simp add: SOCK_STREAM_def IPPROTO_SCTP_def envNoOption_def envOK_def)
qed



section \<open>Properties of listeners and of resolving\<close>

text \<open>
  Claim C4, as the claim states it, fails for Addr: the method has no error among its
  results and does not look at the liveness flag; on a nil listener it reads through the
  nil pointer and panics.
\<close>

theorem SCTPListener_Addr_counterexample:
  "\<not> SCTPListener_ok None
   \<and> SCTPListener_Addr None = Panics ''invalid memory address or nil pointer dereference''"
  by (simp add: SCTPListener_ok_def SCTPListener_Addr_def)

text \<open>
  Claim C4, amended. When the liveness flag of a listener is false, each of AcceptSCTP,
  Accept, Close, SetDeadline and File returns EINVAL and leaves the world as it was. Addr
  has no error result and makes no such check: on a listener with a handle it returns the
  local address recorded in the handle.
\<close>

theorem SCTPListener_not_ok_EINVAL:
  "(\<not> SCTPListener_ok l \<longrightarrow>
      SCTPListener_AcceptSCTP E l w = ((None, Some EINVAL), w)
      \<and> SCTPListener_Accept E l w = ((None, Some EINVAL), w)
      \<and> SCTPListener_Close E l w = (Some EINVAL, w)
      \<and> SCTPListener_SetDeadline E l t w = (Some EINVAL, w)
      \<and> SCTPListener_File E l w = ((None, Some EINVAL), w))
   \<and> SCTPListener_Addr (Some \<lparr>lfd = Some f\<rparr>) = Returns (laddr f)"
  by (simp add: SCTPListener_AcceptSCTP_def SCTPListener_Accept_def SCTPListener_Close_def
      SCTPListener_SetDeadline_def SCTPListener_File_def SCTPListener_Addr_def)

theorem SCTPListener_not_ok_EINVAL_witness:
  "\<not> SCTPListener_ok (Some \<lparr>lfd = None\<rparr>)
   \<and> SCTPListener_AcceptSCTP envOK (Some \<lparr>lfd = None\<rparr>) [] = ((None, Some EINVAL), [])
   \<and> SCTPListener_Close envOK (Some \<lparr>lfd = None\<rparr>) [] = (Some EINVAL, [])
   \<and> SCTPListener_File envOK (Some \<lparr>lfd = None\<rparr>) [] = ((None, Some EINVAL), [])
   \<and> SCTPListener_Addr (Some \<lparr>lfd = Some fdA\<rparr>) = Returns (AddrSCTP (Some loopback4))"
proof -
  have dead: "\<not> SCTPListener_ok (Some \<lparr>lfd = None\<rparr>)"
    by (simp add: SCTPListener_ok_def)
  from dead SCTPListener_not_ok_EINVAL [of "Some \<lparr>lfd = None\<rparr>" envOK "[]" _ fdA]
  show ?thesis by (simp add: fdA_def)
qed

text \<open>
  Claim C6. For the networks "sctp", "sctp4" and "sctp6" ResolveSCTPAddr asks the name
  resolver once, with that network; for the empty network it asks it once, with "sctp". For
  every other network it returns the unknown-network error, and the world is as it was: the
  resolver has not been asked.
\<close>

theorem ResolveSCTPAddr_networks:
  "(network = ''sctp'' \<or> network = ''sctp4'' \<or> network = ''sctp6'' \<longrightarrow>
      ResolveSCTPAddr E network address w = resolveOn E network address w
      \<and> snd (ResolveSCTPAddr E network address w) = w @ [CallInternetAddrList network address])
   \<and> (network = '''' \<longrightarrow>
      ResolveSCTPAddr E network address w = resolveOn E ''sctp'' address w
      \<and> snd (ResolveSCTPAddr E network address w) = w @ [CallInternetAddrList ''sctp'' address])
   \<and> (network \<noteq> ''sctp'' \<and> network \<noteq> ''sctp4'' \<and> network \<noteq> ''sctp6'' \<and> network \<noteq> '''' \<longrightarrow>
      ResolveSCTPAddr E network address w = (Returns (None, Some (UnknownNetworkError network)), w))"
proof -
  have world: "snd (resolveOn E n address w) = w @ [CallInternetAddrList n address]" for n
    by (simp add: resolveOn_def internetAddrList_def split: sum.splits Addr.splits)
  show ?thesis
    by (auto simp add: ResolveSCTPAddr_def world)
qed

theorem ResolveSCTPAddr_networks_witness:
  "ResolveSCTPAddr envOK ''sctp4'' ''127.0.0.1:5000'' [] =
     (Returns (Some loopback4, None), [CallInternetAddrList ''sctp4'' ''127.0.0.1:5000''])
   \<and> ResolveSCTPAddr envOK '''' ''127.0.0.1:5000'' [] =
     (Returns (Some loopback4, None), [CallInternetAddrList ''sctp'' ''127.0.0.1:5000''])
   \<and> ResolveSCTPAddr envOK ''tcp'' ''127.0.0.1:5000'' [] =
     (Returns (None, Some (UnknownNetworkError ''tcp'')), [])"
proof -
  have r: "resolveOn envOK n ''127.0.0.1:5000'' [] =
             (Returns (Some loopback4, None), [CallInternetAddrList n ''127.0.0.1:5000''])" for n
    by (simp add: resolveOn_def internetAddrList_def envOK_def)
  from ResolveSCTPAddr_networks [of "''sctp4''" envOK "''127.0.0.1:5000''" "[]"]
    ResolveSCTPAddr_networks [of "''''" envOK "''127.0.0.1:5000''" "[]"]
    ResolveSCTPAddr_networks [of "''tcp''" envOK "''127.0.0.1:5000''" "[]"]
  show ?thesis by (simp add: r)
qed

text \<open>
  Claim C10. On the networks "sctp", "sctp4" and "sctp6" a nil local address is replaced by
  the empty address (nil IP, port 0, no zone), which is a wildcard, before the socket is
  opened: ListenSCTP with nil is ListenSCTP with that address, result and world. The
  provider is asked once, to listen on the empty address; the call returns the listener of
  the handle it opens, and fails only with the error of the provider.
\<close>

theorem ListenSCTP_nil_laddr:
  assumes "n = ''sctp'' \<or> n = ''sctp4'' \<or> n = ''sctp6''"
  shows "ListenSCTP E n None w = ListenSCTP E n (Some emptySCTPAddr) w
         \<and> isWildcard (Some emptySCTPAddr)
         \<and> snd (ListenSCTP E n None w) =
             w @ [CallInternetSocket n (Some emptySCTPAddr) None SOCK_STREAM IPPROTO_SCTP ''listen'']
         \<and> (\<forall>f. internetSocket_r E n (Some emptySCTPAddr) None SOCK_STREAM IPPROTO_SCTP ''listen'' = Inr f \<longrightarrow>
               fst (ListenSCTP E n None w) = (Some \<lparr>lfd = Some f\<rparr>, None))
         \<and> (\<forall>err. internetSocket_r E n (Some emptySCTPAddr) None SOCK_STREAM IPPROTO_SCTP ''listen'' = Inl err \<longrightarrow>
               fst (ListenSCTP E n None w) =
                 (None, Some (OpError ''listen'' n AddrNil (AddrSCTP (Some emptySCTPAddr)) err)))"
proof -
  have net: "sctpNetwork n"
    using assms by (simp add: sctpNetwork_def)
  have wild: "isWildcard (Some emptySCTPAddr)"
    by (simp add: isWildcard_def emptySCTPAddr_def)
  have same: "ListenSCTP E n None w = ListenSCTP E n (Some emptySCTPAddr) w"
    using net by (simp add: ListenSCTP_def)
  have rest: "snd (ListenSCTP E n (Some emptySCTPAddr) w) =
             w @ [CallInternetSocket n (Some emptySCTPAddr) None SOCK_STREAM IPPROTO_SCTP ''listen'']
         \<and> (\<forall>f. internetSocket_r E n (Some emptySCTPAddr) None SOCK_STREAM IPPROTO_SCTP ''listen'' = Inr f \<longrightarrow>
               fst (ListenSCTP E n (Some emptySCTPAddr) w) = (Some \<lparr>lfd = Some f\<rparr>, None))
         \<and> (\<forall>err. internetSocket_r E n (Some emptySCTPAddr) None SOCK_STREAM IPPROTO_SCTP ''listen'' = Inl err \<longrightarrow>
               fst (ListenSCTP E n (Some emptySCTPAddr) w) =
                 (None, Some (OpError ''listen'' n AddrNil (AddrSCTP (Some emptySCTPAddr)) err)))"
    using net
    by (cases "internetSocket_r E n (Some emptySCTPAddr) None SOCK_STREAM IPPROTO_SCTP ''listen''")
      (simp_all add: ListenSCTP_def listenSCTP_def internetSocket_def opAddr_def Let_def)
  from wild same rest show ?thesis by simp
qed

theorem ListenSCTP_nil_laddr_witness:
  "ListenSCTP envOK ''sctp'' None [] =
     ((Some \<lparr>lfd = Some fdA\<rparr>, None),
      [CallInternetSocket ''sctp'' (Some emptySCTPAddr) None 1 132 ''listen''])
   \<and> ListenSCTP envOK ''sctp'' (Some emptySCTPAddr) [] =
     ((Some \<lparr>lfd = Some fdA\<rparr>, None),
      [CallInternetSocket ''sctp'' (Some emptySCTPAddr) None 1 132 ''listen''])"
proof -
  have n: "''sctp'' = ''sctp'' \<or> ''sctp'' = ''sctp4'' \<or> ''sctp'' = ''sctp6''"
    by simp
  have p: "internetSocket_r envOK ''sctp'' (Some emptySCTPAddr) None SOCK_STREAM IPPROTO_SCTP ''listen'' = Inr fdA"
    by (simp add: envOK_def)
  note t = ListenSCTP_nil_laddr [OF n, of envOK "[]"]
  have same: "ListenSCTP envOK ''sctp'' None [] = ListenSCTP envOK ''sctp'' (Some emptySCTPAddr) []"
    by (rule t [THEN conjunct1])
  have world: "snd (ListenSCTP envOK ''sctp'' None []) =
      [] @ [CallInternetSocket ''sctp'' (Some emptySCTPAddr) None SOCK_STREAM IPPROTO_SCTP ''listen'']"
    by (rule t [THEN conjunct2, THEN conjunct2, THEN conjunct1])
  have result: "fst (ListenSCTP envOK ''sctp'' None []) = (Some \<lparr>lfd = Some fdA\<rparr>, None)"
    using t [THEN conjunct2, THEN conjunct2, THEN conjunct2, THEN conjunct1] p by blast
  have nil: "ListenSCTP envOK ''sctp'' None [] =
     ((Some \<lparr>lfd = Some fdA\<rparr>, None),
      [CallInternetSocket ''sctp'' (Some emptySCTPAddr) None 1 132 ''listen''])"
    using world result by (simp add: prod_eq_iff SOCK_STREAM_def IPPROTO_SCTP_def)
  from nil same [symmetric] show ?thesis by simp
qed

section \<open>The variants of the no-delay setter compared\<close>

lemma option_requests_append [simp]:
  "option_requests (w @ v) = option_requests w @ option_requests v"
  by (simp add: option_requests_def)

lemma option_requests_Nil [simp]: "option_requests [] = []"
  by (simp add: option_requests_def)

lemma option_requests_Cons [simp]:
  "option_requests (c # w) = option_request c @ option_requests w"
  by (simp add: option_requests_def)







end
